theory Spec2Isabelle
  imports Complex_Main "HOL-Library.Word" "HOL-Library.Multiset" "HOL-Library.Char_ord"
    "HOL-Library.List_Lexorder"
begin

section \<open>Numbers as the notebooks' Python code has them\<close>

text \<open>
  The counters of \<open>BinaryF1\<close> start as Python integers (\<open>self.y_true = 0\<close>) and become
  NumPy scalars with the first \<open>update\<close> (\<open>0 + np.sum(label)\<close> is an \<open>np.int64\<close>,
  \<open>0 + np.float32(c)\<close> a NumPy float). The two families divide differently: Python's
  \<open>/\<close> raises \<open>ZeroDivisionError\<close> on a zero divisor, NumPy's \<open>/\<close> on scalars warns and
  returns \<open>inf\<close> or \<open>nan\<close>. Both are kept apart here.

  Floating-point values are idealised: a finite value is a real number and finite
  arithmetic is exact (no rounding, no overflow, no negative zero); the special values
  \<open>inf\<close>, \<open>-inf\<close> and \<open>nan\<close> follow IEEE 754. Integers are unbounded (\<open>np.int64\<close>
  sums of pixel counts stay far below \<open>2^63\<close>).
\<close>

datatype error = ZeroDivisionError | ValueError | IndexError

datatype npfloat = Fin real | PInf | NInf | NaN

fun fl_sgn :: "npfloat \<Rightarrow> int" where
  "fl_sgn (Fin x) = (if 0 < x then 1 else if x < 0 then - 1 else 0)"
| "fl_sgn PInf = 1"
| "fl_sgn NInf = - 1"
| "fl_sgn NaN = 0"

fun fl_add :: "npfloat \<Rightarrow> npfloat \<Rightarrow> npfloat" where
  "fl_add NaN b = NaN"
| "fl_add a NaN = NaN"
| "fl_add (Fin x) (Fin y) = Fin (x + y)"
| "fl_add (Fin x) b = b"
| "fl_add a (Fin y) = a"
| "fl_add PInf PInf = PInf"
| "fl_add NInf NInf = NInf"
| "fl_add PInf NInf = NaN"
| "fl_add NInf PInf = NaN"

fun fl_mul :: "npfloat \<Rightarrow> npfloat \<Rightarrow> npfloat" where
  "fl_mul NaN b = NaN"
| "fl_mul a NaN = NaN"
| "fl_mul (Fin x) (Fin y) = Fin (x * y)"
| "fl_mul a b =
     (if 0 < fl_sgn a * fl_sgn b then PInf
      else if fl_sgn a * fl_sgn b < 0 then NInf
      else NaN)"

fun fl_div :: "npfloat \<Rightarrow> npfloat \<Rightarrow> npfloat" where
  "fl_div NaN b = NaN"
| "fl_div a NaN = NaN"
| "fl_div (Fin x) (Fin y) =
     (if y \<noteq> 0 then Fin (x / y)
      else if 0 < x then PInf
      else if x < 0 then NInf
      else NaN)"
| "fl_div (Fin x) b = Fin 0"
| "fl_div PInf (Fin y) = (if 0 \<le> y then PInf else NInf)"
| "fl_div NInf (Fin y) = (if 0 \<le> y then NInf else PInf)"
| "fl_div a b = NaN"

datatype number = PyInt int | PyFloat real | NpInt int | NpFloat npfloat

fun is_py :: "number \<Rightarrow> bool" where
  "is_py (PyInt i) = True"
| "is_py (PyFloat x) = True"
| "is_py (NpInt i) = False"
| "is_py (NpFloat a) = False"

fun to_fl :: "number \<Rightarrow> npfloat" where
  "to_fl (PyInt i) = Fin (of_int i)"
| "to_fl (PyFloat x) = Fin x"
| "to_fl (NpInt i) = Fin (of_int i)"
| "to_fl (NpFloat a) = a"

fun py_val :: "number \<Rightarrow> real" where
  "py_val (PyInt i) = of_int i"
| "py_val (PyFloat x) = x"
| "py_val (NpInt i) = of_int i"
| "py_val (NpFloat a) = (case a of Fin x \<Rightarrow> x | _ \<Rightarrow> 0)"

text \<open>\<open>a + b\<close>: integers stay integers, a NumPy operand makes the result a NumPy scalar.\<close>

fun num_add :: "number \<Rightarrow> number \<Rightarrow> number" where
  "num_add (PyInt i) (PyInt j) = PyInt (i + j)"
| "num_add (PyInt i) (PyFloat y) = PyFloat (of_int i + y)"
| "num_add (PyFloat x) (PyInt j) = PyFloat (x + of_int j)"
| "num_add (PyFloat x) (PyFloat y) = PyFloat (x + y)"
| "num_add (PyInt i) (NpInt j) = NpInt (i + j)"
| "num_add (NpInt i) (PyInt j) = NpInt (i + j)"
| "num_add (NpInt i) (NpInt j) = NpInt (i + j)"
| "num_add a b = NpFloat (fl_add (to_fl a) (to_fl b))"

fun num_mul :: "number \<Rightarrow> number \<Rightarrow> number" where
  "num_mul (PyInt i) (PyInt j) = PyInt (i * j)"
| "num_mul (PyInt i) (PyFloat y) = PyFloat (of_int i * y)"
| "num_mul (PyFloat x) (PyInt j) = PyFloat (x * of_int j)"
| "num_mul (PyFloat x) (PyFloat y) = PyFloat (x * y)"
| "num_mul (PyInt i) (NpInt j) = NpInt (i * j)"
| "num_mul (NpInt i) (PyInt j) = NpInt (i * j)"
| "num_mul (NpInt i) (NpInt j) = NpInt (i * j)"
| "num_mul a b = NpFloat (fl_mul (to_fl a) (to_fl b))"

text \<open>
  \<open>a / b\<close> (true division): between two Python numbers a zero divisor raises; as soon
  as one operand is a NumPy scalar the division is NumPy's and never raises.
\<close>

definition truediv :: "number \<Rightarrow> number \<Rightarrow> error + number" where
  "truediv a b =
     (if is_py a \<and> is_py b then
        (if py_val b = 0 then Inl ZeroDivisionError
         else Inr (PyFloat (py_val a / py_val b)))
      else Inr (NpFloat (fl_div (to_fl a) (to_fl b))))"

section \<open>The metric: \<open>BinaryF1\<close>\<close>

record BinaryF1 =
  name :: string
  y_true :: number
  y_pred :: number
  correct_true :: number

definition BinaryF1_init :: BinaryF1 where
  "BinaryF1_init =
     \<lparr>name = ''F1'', y_true = PyInt 0, y_pred = PyInt 0, correct_true = PyInt 0\<rparr>"

definition reset :: "BinaryF1 \<Rightarrow> BinaryF1" where
  "reset s = s\<lparr>y_true := PyInt 0, y_pred := PyInt 0, correct_true := PyInt 0\<rparr>"

text \<open>
  The property \<open>avg_value\<close>: \<open>recall\<close>, then \<open>precision\<close>, then \<open>f1\<close>; the result is the
  dictionary \<open>{self._name: f1}\<close>, here an association list with one entry.
\<close>

definition avg_value :: "BinaryF1 \<Rightarrow> error + (string \<times> number) list" where
  "avg_value s =
     (case truediv (correct_true s) (y_pred s) of
        Inl e \<Rightarrow> Inl e
      | Inr recall \<Rightarrow>
          (case truediv (correct_true s) (y_true s) of
             Inl e \<Rightarrow> Inl e
           | Inr precision \<Rightarrow>
               (case truediv (num_mul (num_mul (PyInt 2) precision) recall)
                             (num_add precision recall) of
                  Inl e \<Rightarrow> Inl e
                | Inr f1 \<Rightarrow> Inr [(name s, f1)])))"

subsection \<open>Arrays and \<open>update\<close>\<close>

text \<open>
  Arrays are one-dimensional lists. The model output holds finite floats (reals); the
  annotation mask is the \<open>uint8\<close> array that \<open>KitsDataLoader\<close> loads.
\<close>

definition logaddexp :: "real \<Rightarrow> real \<Rightarrow> real" where
  "logaddexp a b = ln (exp a + exp b)"

definition sigmoid :: "real \<Rightarrow> real" where
  "sigmoid x = exp (- logaddexp 0 (- x))"

text \<open>\<open>ndarray.round()\<close> rounds to the nearest integer, a tie to the even one.\<close>

definition np_round :: "real \<Rightarrow> int" where
  "np_round x =
     (let f = \<lfloor>x\<rfloor>; d = x - of_int f
      in if d < 1 / 2 then f else if 1 / 2 < d then f + 1
         else if even f then f else f + 1)"

text \<open>\<open>astype(np.byte)\<close>: the value as a signed 8-bit integer.\<close>

definition astype_byte :: "int \<Rightarrow> int" where
  "astype_byte i = sint (word_of_int i :: 8 word)"

definition astype_byte_u8 :: "8 word \<Rightarrow> int" where
  "astype_byte_u8 w = sint w"

text \<open>
  One element of \<open>sigmoid(output[0]).round().astype(np.byte)\<close>. The exponential is
  not computable, so \<open>binarize_threshold\<close> below gives the equation it is evaluated by.
\<close>

definition binarize :: "real \<Rightarrow> int" where
  "binarize x = astype_byte (np_round (sigmoid x))"

text \<open>
  An element-wise binary operation on two one-dimensional arrays: equal lengths pair
  up, an array of length one is broadcast, and any other pair of shapes raises
  (\<open>ValueError\<close>: the operands could not be broadcast together).
\<close>

definition broadcast2 :: "('a \<Rightarrow> 'b \<Rightarrow> 'c) \<Rightarrow> 'a list \<Rightarrow> 'b list \<Rightarrow> error + 'c list" where
  "broadcast2 f xs ys =
     (if length xs = length ys then Inr (map2 f xs ys)
      else if length xs = 1 then Inr (map (f (hd xs)) ys)
      else if length ys = 1 then Inr (map (\<lambda>x. f x (hd ys)) xs)
      else Inl ValueError)"

text \<open>
  \<open>update(output, target)\<close> reads \<open>target[0]\<close> and \<open>output[0]\<close> (an empty batch
  raises \<open>IndexError\<close>) and then mutates the counters one statement after the other,
  so an exception leaves the statements before it done: the result is the metric after
  the call together with the exception raised, if any. \<open>np.sum\<close> of a byte array is
  an \<open>np.int64\<close>; the sum of the hits is cast to \<open>np.float32\<close>.
\<close>

definition update :: "BinaryF1 \<Rightarrow> real list list \<Rightarrow> 8 word list list \<Rightarrow> BinaryF1 \<times> error option" where
  "update s output target =
     (case target of
        [] \<Rightarrow> (s, Some IndexError)
      | t0 # _ \<Rightarrow>
          (case output of
             [] \<Rightarrow> (s, Some IndexError)
           | o0 # _ \<Rightarrow>
               (let label = map astype_byte_u8 t0;
                    prediction = map binarize o0;
                    s1 = s\<lparr>y_true := num_add (y_true s) (NpInt (sum_list label))\<rparr>;
                    s2 = s1\<lparr>y_pred := num_add (y_pred s1) (NpInt (sum_list prediction))\<rparr>
                in case broadcast2 (\<lambda>l p. (of_bool (l = p) :: int)) label prediction of
                     Inl e \<Rightarrow> (s2, Some e)
                   | Inr eq \<Rightarrow>
                       (case broadcast2 (*) eq (map (\<lambda>l. (of_bool (l = 1) :: int)) label) of
                          Inl e \<Rightarrow> (s2, Some e)
                        | Inr hits \<Rightarrow>
                            (s2\<lparr>correct_true :=
                                  num_add (correct_true s2)
                                    (NpFloat (Fin (of_int (sum_list hits))))\<rparr>,
                             None)))))"

subsection \<open>Comparing counters, and the score the documentation names\<close>

text \<open>\<open>a <= b\<close> on floats: false as soon as one side is \<open>nan\<close>.\<close>

fun fl_le :: "npfloat \<Rightarrow> npfloat \<Rightarrow> bool" where
  "fl_le NaN b = False"
| "fl_le a NaN = False"
| "fl_le (Fin x) (Fin y) = (x \<le> y)"
| "fl_le NInf b = True"
| "fl_le a PInf = True"
| "fl_le a b = False"

fun is_fin :: "npfloat \<Rightarrow> bool" where
  "is_fin (Fin x) = True"
| "is_fin a = False"

definition finite_counters :: "BinaryF1 \<Rightarrow> bool" where
  "finite_counters s =
     (is_fin (to_fl (y_true s)) \<and> is_fin (to_fl (y_pred s)) \<and> is_fin (to_fl (correct_true s)))"

definition num_le :: "number \<Rightarrow> number \<Rightarrow> bool" where
  "num_le a b = fl_le (to_fl a) (to_fl b)"

text \<open>
  The Dice coefficient \<open>2 * correct_true / (y_true + y_pred)\<close> that the class
  documentation equates with F1, written from the formula and not from the code.
\<close>

definition dice :: "BinaryF1 \<Rightarrow> npfloat" where
  "dice s =
     fl_div (fl_mul (Fin 2) (to_fl (correct_true s)))
            (fl_add (to_fl (y_true s)) (to_fl (y_pred s)))"

text \<open>
  \<open>avg_value\<close> with the two ratios interchanged: \<open>recall\<close> takes the code's precision
  (\<open>correct_true / y_true\<close>) and \<open>precision\<close> the code's recall.
\<close>

definition avg_value_swapped :: "BinaryF1 \<Rightarrow> error + (string \<times> number) list" where
  "avg_value_swapped s =
     (case truediv (correct_true s) (y_true s) of
        Inl e \<Rightarrow> Inl e
      | Inr recall \<Rightarrow>
          (case truediv (correct_true s) (y_pred s) of
             Inl e \<Rightarrow> Inl e
           | Inr precision \<Rightarrow>
               (case truediv (num_mul (num_mul (PyInt 2) precision) recall)
                             (num_add precision recall) of
                  Inl e \<Rightarrow> Inl e
                | Inr f1 \<Rightarrow> Inr [(name s, f1)])))"

text \<open>
  A sequence of \<open>update\<close> calls on one metric object, each with its \<open>(output, target)\<close>;
  the caller goes on whatever a call raised.
\<close>

fun update_calls :: "BinaryF1 \<Rightarrow> (real list list \<times> 8 word list list) list \<Rightarrow> BinaryF1" where
  "update_calls s [] = s"
| "update_calls s ((output, target) # rest) = update_calls (fst (update s output target)) rest"

subsection \<open>Scoring a model over a dataset\<close>

text \<open>
  Modelled from the spec: the evaluation loop (\<open>EvaluationHarness.score\<close>; in the
  notebook it is the POT engine behind \<open>pipeline.evaluate\<close>) is not in the repository.
  It runs the model on every sample in order, passes the output and the annotation to
  \<open>update\<close> as one-element batches, stops at the first exception, and returns
  \<open>avg_value\<close> of a metric that started fresh.
\<close>

fun accumulate ::
  "('img \<Rightarrow> real list) \<Rightarrow> BinaryF1 \<Rightarrow> ('img \<times> 8 word list) list \<Rightarrow> BinaryF1 \<times> error option" where
  "accumulate model s [] = (s, None)"
| "accumulate model s ((img, msk) # rest) =
     (case update s [model img] [msk] of
        (s', None) \<Rightarrow> accumulate model s' rest
      | (s', Some e) \<Rightarrow> (s', Some e))"

definition score ::
  "('img \<Rightarrow> real list) \<Rightarrow> ('img \<times> 8 word list) list \<Rightarrow> error + (string \<times> number) list" where
  "score model dataset =
     (case accumulate model BinaryF1_init dataset of
        (s, None) \<Rightarrow> avg_value s
      | (s, Some e) \<Rightarrow> Inl e)"

text \<open>
  The synthetic scenario: every sample carries its own ground truth as the image (the
  mask as floats), and the mock model returns its input unchanged.
\<close>

definition as_float :: "8 word list \<Rightarrow> real list" where
  "as_float msk = map (\<lambda>w. real (unat w)) msk"

definition synthetic :: "8 word list list \<Rightarrow> (real list \<times> 8 word list) list" where
  "synthetic masks = map (\<lambda>m. (as_float m, m)) masks"

definition mock_model :: "real list \<Rightarrow> real list" where
  "mock_model img = img"

definition foreground :: "8 word list \<Rightarrow> nat" where
  "foreground msk = length (filter (\<lambda>w. w = 1) msk)"

definition binary_mask :: "8 word list \<Rightarrow> bool" where
  "binary_mask msk = list_all (\<lambda>w. w = 0 \<or> w = 1) msk"

section \<open>The data source: \<open>KitsDataLoader\<close>\<close>

text \<open>
  A path is the list of its components below \<open>BASEDIR\<close>; the directory tree is the list
  of the paths that exist in it. The constructor globs the notebook's global \<open>BASEDIR\<close>
  (its parameter \<open>basedir\<close> is only stored and printed), so the tree is an argument here.
\<close>

type_synonym path = "string list"

definition startswith :: "string \<Rightarrow> string \<Rightarrow> bool" where
  "startswith s pre = (take (length pre) s = pre)"

definition endswith :: "string \<Rightarrow> string \<Rightarrow> bool" where
  "endswith s suf = (length suf \<le> length s \<and> drop (length s - length suf) s = suf)"

text \<open>\<open>BASEDIR.glob("case_*/segmentation_frames/*png")\<close>, in the order of the tree.\<close>

definition glob_masks :: "path list \<Rightarrow> path list" where
  "glob_masks tree =
     filter (\<lambda>p. case p of
                  [c, d, f] \<Rightarrow> startswith c ''case_'' \<and> d = ''segmentation_frames'' \<and>
                               endswith f ''png''
                | _ \<Rightarrow> False) tree"

text \<open>\<open>p.parents[1].name\<close>: the component two levels above the last one.\<close>

definition parents1_name :: "path \<Rightarrow> string" where
  "parents1_name p = (case rev p of f # d # c # _ \<Rightarrow> c | _ \<Rightarrow> [])"

fun decimal :: "nat \<Rightarrow> string" where
  "decimal n =
     (if n < 10 then [''0123456789'' ! n]
      else decimal (n div 10) @ [''0123456789'' ! (n mod 10)])"

declare decimal.simps [simp del]

text \<open>The format \<open>{i:05d}\<close>: decimal digits, padded with zeros to five characters.\<close>

definition fmt_05d :: "nat \<Rightarrow> string" where
  "fmt_05d i = replicate (5 - length (decimal i)) CHR ''0'' @ decimal i"

definition val_indices :: "nat list" where
  "val_indices = [7, 10, 14, 15, 30, 60, 71, 74, 75, 81, 92, 93,
                  106, 115, 117, 119, 134, 161, 192, 196, 203]"

definition val_cases :: "string list" where
  "val_cases = map (\<lambda>i. ''case_'' @ fmt_05d i) val_indices"

record KitsDataLoader =
  basedir :: string
  dataset :: "path list"

text \<open>
  The constructor: the sorted glob, the check that it is not empty, and then the
  restriction to the validation cases. \<open>__len__\<close> is the length of what is left.
\<close>

definition KitsDataLoader_init :: "path list \<Rightarrow> string \<Rightarrow> error + KitsDataLoader" where
  "KitsDataLoader_init tree dir =
     (let allmasks = sort (glob_masks tree)
      in if length allmasks = 0 then Inl ValueError
         else (let masks = filter (\<lambda>m. parents1_name m \<in> set val_cases) allmasks
               in Inr \<lparr>basedir = dir, dataset = masks\<rparr>))"

definition KitsDataLoader_len :: "KitsDataLoader \<Rightarrow> nat" where
  "KitsDataLoader_len self = length (dataset self)"

section \<open>The benchmark cells of the BERT notebook\<close>

text \<open>
  The cells call into the runtime and read a clock. The world they run in is a clock
  and the trace of the calls made so far. An external call appends its event and takes
  time: \<open>cost k\<close> seconds for the call that is the \<open>k\<close>-th entry of the trace, whatever
  the runtime needs for it. Reading \<open>time.perf_counter()\<close> is recorded too and takes no
  time, as do the loop and the assignments of the cell itself.
\<close>

datatype 'a event =
    ReadModel
  | Reshape
  | CompileModel
  | PerfCounter
  | TorchCall 'a
  | InferFP32 'a
  | InferINT8 'a
  | Print string number number

record 'a world =
  clock :: real
  trace :: "'a event list"

definition external :: "(nat \<Rightarrow> real) \<Rightarrow> 'a event \<Rightarrow> 'a world \<Rightarrow> 'a world" where
  "external cost ev w =
     w\<lparr>clock := clock w + cost (length (trace w)), trace := trace w @ [ev]\<rparr>"

definition perf_counter :: "'a world \<Rightarrow> real \<times> 'a world" where
  "perf_counter w = (clock w, w\<lparr>trace := trace w @ [PerfCounter]\<rparr>)"

text \<open>\<open>for _ in range(n): body\<close>.\<close>

fun for_range :: "nat \<Rightarrow> ('s \<Rightarrow> 's) \<Rightarrow> 's \<Rightarrow> 's" where
  "for_range 0 body w = w"
| "for_range (Suc n) body w = for_range n body (body w)"

definition num_samples :: nat where
  "num_samples = 50"

text \<open>
  The cell that prepares the FP32 model: \<open>core.read_model\<close>, \<open>model.reshape\<close>,
  \<open>core.compile_model\<close>.
\<close>

definition compile_cell :: "(nat \<Rightarrow> real) \<Rightarrow> 'a world \<Rightarrow> 'a world" where
  "compile_cell cost w =
     external cost CompileModel (external cost Reshape (external cost ReadModel w))"

text \<open>
  The timing pattern that the next cell writes out three times, for the PyTorch model,
  for \<open>compiled_model_fp32\<close> and for \<open>compiled_model_int8\<close>: read the clock, call the
  model \<open>num_samples\<close> times on the same \<open>inputs\<close>, read the clock, and print the
  seconds per sentence \<open>time / num_samples\<close> and the throughput \<open>num_samples / time\<close>
  (the values handed to the format \<open>.3f\<close> and \<open>.2f\<close>). Both are divisions of Python
  numbers and raise on a zero divisor.
\<close>

definition timed_loop ::
  "(nat \<Rightarrow> real) \<Rightarrow> string \<Rightarrow> 'a event \<Rightarrow> 'a world \<Rightarrow> error option \<times> 'a world" where
  "timed_loop cost title call w =
     (let (start, w1) = perf_counter w;
          w2 = for_range num_samples (external cost call) w1;
          (stop, w3) = perf_counter w2;
          time_ir = PyFloat (stop - start)
      in case truediv time_ir (PyInt (int num_samples)) of
           Inl e \<Rightarrow> (Some e, w3)
         | Inr per_sentence \<Rightarrow>
             (case truediv (PyInt (int num_samples)) time_ir of
                Inl e \<Rightarrow> (Some e, w3)
              | Inr sps \<Rightarrow> (None, external cost (Print title per_sentence sps) w3)))"

definition benchmark_cell ::
  "(nat \<Rightarrow> real) \<Rightarrow> 'a \<Rightarrow> 'a world \<Rightarrow> error option \<times> 'a world" where
  "benchmark_cell cost inputs w =
     (case timed_loop cost ''PyTorch model on CPU'' (TorchCall inputs) w of
        (Some e, w1) \<Rightarrow> (Some e, w1)
      | (None, w1) \<Rightarrow>
          (case timed_loop cost ''IR FP32 model in OpenVINO Runtime/CPU'' (InferFP32 inputs) w1 of
             (Some e, w2) \<Rightarrow> (Some e, w2)
           | (None, w2) \<Rightarrow>
               timed_loop cost ''OpenVINO IR INT8 model in OpenVINO Runtime/CPU''
                 (InferINT8 inputs) w2))"

text \<open>
  The time inside one timing pattern whose first clock reading is entry \<open>k\<close> of the
  trace: the calls of its loop are the entries \<open>k + 1\<close> to \<open>k + num_samples\<close>.
\<close>

definition loop_time :: "(nat \<Rightarrow> real) \<Rightarrow> nat \<Rightarrow> real" where
  "loop_time cost k = (\<Sum>i<num_samples. cost (k + 1 + i))"

text \<open>The two cells, run one after the other as the notebook does.\<close>

definition benchmark :: "(nat \<Rightarrow> real) \<Rightarrow> 'a \<Rightarrow> 'a world \<Rightarrow> error option \<times> 'a world" where
  "benchmark cost inputs w = benchmark_cell cost inputs (compile_cell cost w)"

section \<open>Properties of the arithmetic and of \<open>update\<close>\<close>

lemma sigmoid_alt: "sigmoid x = 1 / (1 + exp (- x))"
  by (simp add: sigmoid_def logaddexp_def exp_minus add_pos_pos divide_simps)

lemma sigmoid_pos: "0 < sigmoid x"
  by (simp add: sigmoid_def)

lemma sigmoid_lt1: "sigmoid x < 1"
  by (simp add: sigmoid_alt add_pos_pos)

lemma sigmoid_below_half: "sigmoid x < 1 / 2 \<longleftrightarrow> x < 0"
  by (simp add: sigmoid_alt field_simps add_pos_pos)

lemma sigmoid_above_half: "1 / 2 < sigmoid x \<longleftrightarrow> 0 < x"
  by (simp add: sigmoid_alt field_simps add_pos_pos)

lemma np_round_sigmoid: "np_round (sigmoid x) = (if 0 < x then 1 else 0)"
proof -
  have fl: "\<lfloor>sigmoid x\<rfloor> = 0"
    using sigmoid_pos [of x] sigmoid_lt1 [of x] by (simp add: floor_eq_iff)
  show ?thesis
    using sigmoid_below_half [of x] sigmoid_above_half [of x]
    by (auto simp: np_round_def fl Let_def)
qed

text \<open>
  In exact arithmetic the sigmoid of \<open>0\<close> is the tie \<open>1/2\<close>, which rounds to the even
  \<open>0\<close>: a pixel is predicted positive exactly when its logit is positive.
\<close>

lemma binarize_threshold [code]: "binarize x = (if 0 < x then 1 else 0)"
  by (simp add: binarize_def np_round_sigmoid astype_byte_def)

lemma not_is_py_add_NpInt: "\<not> is_py (num_add a (NpInt k))"
  by (cases a) simp_all

lemma truediv_numpy:
  "\<not> is_py b \<Longrightarrow> truediv a b = Inr (NpFloat (fl_div (to_fl a) (to_fl b)))"
  by (simp add: truediv_def)

lemma fl_div_zero_not_Fin: "fl_div a (Fin 0) \<noteq> Fin x"
  by (cases a) simp_all

lemma fl_f1_nan:
  assumes "\<forall>x. r \<noteq> Fin x"
  shows "fl_div (fl_mul q r) (fl_add p r) = NaN"
proof -
  have n: "\<forall>x. fl_mul q r \<noteq> Fin x"
    using assms by (cases q; cases r) auto
  have d: "\<forall>x. fl_add p r \<noteq> Fin x"
    using assms by (cases p; cases r) auto
  show ?thesis
    using n d by (cases "fl_mul q r"; cases "fl_add p r") auto
qed

lemma update_fields:
  assumes "update s (o0 # os) (t0 # ts) = (s', exc)"
  shows "\<not> is_py (y_pred s')" and "\<not> is_py (y_true s')" and "name s' = name s"
  using assms
  by (auto simp: update_def Let_def not_is_py_add_NpInt split: sum.splits)

text \<open>Once both divisors are NumPy scalars no division of \<open>avg_value\<close> can raise.\<close>

lemma avg_value_numpy:
  assumes "\<not> is_py (y_pred s)" and "\<not> is_py (y_true s)"
  shows "avg_value s =
    Inr [(name s, NpFloat (fl_div
       (fl_mul (fl_mul (Fin 2) (fl_div (to_fl (correct_true s)) (to_fl (y_true s))))
               (fl_div (to_fl (correct_true s)) (to_fl (y_pred s))))
       (fl_add (fl_div (to_fl (correct_true s)) (to_fl (y_true s)))
               (fl_div (to_fl (correct_true s)) (to_fl (y_pred s))))))]"
  using assms by (simp add: avg_value_def truediv_numpy)

lemma avg_value_reset: "avg_value (reset s) = Inl ZeroDivisionError"
  by (simp add: avg_value_def reset_def truediv_def)

lemma update_zero_pixel:
  "update BinaryF1_init [[0]] [[0]] =
     (\<lparr>name = ''F1'', y_true = NpInt 0, y_pred = NpInt 0, correct_true = NpFloat (Fin 0)\<rparr>,
      None)"
  by (simp add: update_def BinaryF1_init_def Let_def astype_byte_u8_def broadcast2_def
      binarize_threshold)

lemma to_fl_add: "to_fl (num_add a b) = fl_add (to_fl a) (to_fl b)"
  by (cases a; cases b) simp_all

lemma is_fin_iff: "is_fin a \<longleftrightarrow> (\<exists>x. a = Fin x)"
  by (cases a) simp_all

lemma num_le_add_NpInt:
  assumes "is_fin (to_fl a)" "0 \<le> k"
  shows "num_le a (num_add a (NpInt k))" "is_fin (to_fl (num_add a (NpInt k)))"
  using assms by (auto simp: num_le_def to_fl_add is_fin_iff)

lemma num_le_add_NpFloat:
  assumes "is_fin (to_fl a)" "0 \<le> x"
  shows "num_le a (num_add a (NpFloat (Fin x)))" "is_fin (to_fl (num_add a (NpFloat (Fin x))))"
  using assms by (auto simp: num_le_def to_fl_add is_fin_iff)

lemma is_fin_add_NpInt: "is_fin (to_fl a) \<Longrightarrow> is_fin (to_fl (num_add a (NpInt k)))"
  by (auto simp: to_fl_add is_fin_iff)

lemma num_le_refl: "is_fin (to_fl a) \<Longrightarrow> num_le a a"
  by (auto simp: num_le_def is_fin_iff)

lemma binarize_nonneg: "0 \<le> binarize x"
  by (simp add: binarize_threshold)

lemma sum_list_binarize_nonneg: "0 \<le> sum_list (map binarize xs)"
  by (rule sum_list_nonneg) (auto simp: binarize_nonneg)

lemma hd_in_set_len1: "length xs = 1 \<Longrightarrow> hd xs \<in> set xs"
  by (cases xs) simp_all

lemma broadcast2_elem:
  assumes "broadcast2 f xs ys = Inr zs" and "z \<in> set zs"
  shows "\<exists>x \<in> set xs. \<exists>y \<in> set ys. z = f x y"
proof (cases "length xs = length ys")
  case True
  then have "zs = map2 f xs ys" using assms(1) by (simp add: broadcast2_def)
  then have "z \<in> (\<lambda>(x, y). f x y) ` set (zip xs ys)"
    using assms(2) by simp
  then obtain x y where xy: "(x, y) \<in> set (zip xs ys)" and z: "z = f x y"
    by (elim imageE) (simp add: case_prod_beta, metis prod.collapse)
  have "x \<in> set xs" and "y \<in> set ys"
    using xy by (rule set_zip_leftD, rule set_zip_rightD)
  then show ?thesis using z by blast
next
  case False
  show ?thesis
  proof (cases "length xs = 1")
    case True
    then have "zs = map (f (hd xs)) ys" using assms(1) False by (simp add: broadcast2_def)
    then show ?thesis using assms(2) hd_in_set_len1 [OF True] by auto
  next
    case nx: False
    then have l: "length ys = 1" and "zs = map (\<lambda>x. f x (hd ys)) xs"
      using assms(1) False by (auto simp: broadcast2_def split: if_splits)
    then show ?thesis using assms(2) hd_in_set_len1 [OF l] by auto
  qed
qed

lemma hits_nonneg:
  assumes "broadcast2 (\<lambda>l p. (of_bool (l = p) :: int)) ls ps = Inr eq"
    and "broadcast2 (*) eq (map (\<lambda>l. (of_bool (l = 1) :: int)) ls) = Inr hits"
  shows "0 \<le> sum_list hits"
proof (rule sum_list_nonneg)
  fix z assume "z \<in> set hits"
  then obtain e m where e: "e \<in> set eq" and m: "m \<in> set (map (\<lambda>l. (of_bool (l = 1) :: int)) ls)"
    and z: "z = e * m"
    using broadcast2_elem [OF assms(2)] by blast
  have "0 \<le> e" using broadcast2_elem [OF assms(1) e] by auto
  moreover have "0 \<le> m" using m by auto
  ultimately show "0 \<le> z" by (simp add: z)
qed

lemma update_IndexError:
  "target = [] \<or> output = [] \<Longrightarrow> update s output target = (s, Some IndexError)"
  by (cases target; cases "output") (simp_all add: update_def)

lemma update_y_true:
  "y_true (fst (update s (o0 # os) (t0 # ts))) =
     num_add (y_true s) (NpInt (sum_list (map astype_byte_u8 t0)))"
proof (cases "broadcast2 (\<lambda>l p. (of_bool (l = p) :: int)) (map astype_byte_u8 t0) (map binarize o0)")
  case (Inl e)
  then show ?thesis by (simp add: update_def Let_def)
next
  case eq: (Inr eq)
  then show ?thesis
    by (cases "broadcast2 (*) eq (map (\<lambda>l. (of_bool (l = 1) :: int)) (map astype_byte_u8 t0))")
      (simp_all add: update_def Let_def)
qed

lemma update_y_pred:
  "y_pred (fst (update s (o0 # os) (t0 # ts))) =
     num_add (y_pred s) (NpInt (sum_list (map binarize o0)))"
proof (cases "broadcast2 (\<lambda>l p. (of_bool (l = p) :: int)) (map astype_byte_u8 t0) (map binarize o0)")
  case (Inl e)
  then show ?thesis by (simp add: update_def Let_def)
next
  case eq: (Inr eq)
  then show ?thesis
    by (cases "broadcast2 (*) eq (map (\<lambda>l. (of_bool (l = 1) :: int)) (map astype_byte_u8 t0))")
      (simp_all add: update_def Let_def)
qed

lemma update_correct_true:
  "correct_true (fst (update s (o0 # os) (t0 # ts))) = correct_true s \<or>
   (\<exists>k\<ge>0. correct_true (fst (update s (o0 # os) (t0 # ts))) =
      num_add (correct_true s) (NpFloat (Fin (of_int k))))"
proof (cases "broadcast2 (\<lambda>l p. (of_bool (l = p) :: int)) (map astype_byte_u8 t0) (map binarize o0)")
  case (Inl e)
  then show ?thesis by (simp add: update_def Let_def)
next
  case eq: (Inr eq)
  show ?thesis
  proof (cases "broadcast2 (*) eq (map (\<lambda>l. (of_bool (l = 1) :: int)) (map astype_byte_u8 t0))")
    case (Inl e)
    then show ?thesis using eq by (simp add: update_def Let_def)
  next
    case (Inr hits)
    have "0 \<le> sum_list hits" using hits_nonneg [OF eq Inr] .
    then show ?thesis using eq Inr by (auto simp: update_def Let_def)
  qed
qed



lemma update_monotone:
  assumes fc: "finite_counters s"
  shows "finite_counters (fst (update s output target))"
    and "num_le (y_pred s) (y_pred (fst (update s output target)))"
    and "num_le (correct_true s) (correct_true (fst (update s output target)))"
    and "(\<forall>t0 \<in> set (take 1 target). \<forall>w \<in> set t0. 0 \<le> astype_byte_u8 w) \<Longrightarrow>
          num_le (y_true s) (y_true (fst (update s output target)))"
proof -
  have f: "is_fin (to_fl (y_true s))" "is_fin (to_fl (y_pred s))" "is_fin (to_fl (correct_true s))"
    using fc by (simp_all add: finite_counters_def)
  have r: "num_le (y_true s) (y_true s)" "num_le (y_pred s) (y_pred s)"
    "num_le (correct_true s) (correct_true s)"
    using f by (simp_all add: num_le_refl)
  consider "target = [] \<or> output = []" | o0 os t0 ts where "output = o0 # os" "target = t0 # ts"
    by (cases target; cases "output") auto
  then have "finite_counters (fst (update s output target)) \<and>
      num_le (y_pred s) (y_pred (fst (update s output target))) \<and>
      num_le (correct_true s) (correct_true (fst (update s output target))) \<and>
      ((\<forall>t0 \<in> set (take 1 target). \<forall>w \<in> set t0. 0 \<le> astype_byte_u8 w) \<longrightarrow>
          num_le (y_true s) (y_true (fst (update s output target))))"
  proof cases
    case 1
    then show ?thesis using fc r by (simp add: update_IndexError)
  next
    case 2
    have c: "is_fin (to_fl (correct_true (fst (update s output target)))) \<and>
             num_le (correct_true s) (correct_true (fst (update s output target)))"
      using update_correct_true [of s o0 os t0 ts] f(3) r(3) 2
      by (auto simp: num_le_def is_fin_iff)
    have p: "is_fin (to_fl (y_pred (fst (update s output target)))) \<and>
             num_le (y_pred s) (y_pred (fst (update s output target)))"
      using f(2) 2 by (simp add: update_y_pred num_le_add_NpInt sum_list_binarize_nonneg)
    have t: "is_fin (to_fl (y_true (fst (update s output target))))"
      using f(1) 2 by (simp add: update_y_true is_fin_add_NpInt)
    have t2: "num_le (y_true s) (y_true (fst (update s output target)))"
      if "\<forall>w \<in> set t0. 0 \<le> astype_byte_u8 w"
    proof -
      have "0 \<le> sum_list (map astype_byte_u8 t0)"
        using that by (intro sum_list_nonneg) auto
      then show ?thesis using f(1) 2 by (simp add: update_y_true num_le_add_NpInt)
    qed
    show ?thesis using c p t t2 2 by (simp add: finite_counters_def)
  qed
  then show "finite_counters (fst (update s output target))"
    and "num_le (y_pred s) (y_pred (fst (update s output target)))"
    and "num_le (correct_true s) (correct_true (fst (update s output target)))"
    and "(\<forall>t0 \<in> set (take 1 target). \<forall>w \<in> set t0. 0 \<le> astype_byte_u8 w) \<Longrightarrow>
          num_le (y_true s) (y_true (fst (update s output target)))"
    by blast+
qed

lemma finite_counters_reset: "finite_counters (reset s)"
  by (simp add: finite_counters_def reset_def)

lemma finite_counters_calls: "finite_counters s \<Longrightarrow> finite_counters (update_calls s calls)"
  by (induction s calls rule: update_calls.induct) (simp_all add: update_monotone(1))

lemma to_fl_mul: "to_fl (num_mul a b) = fl_mul (to_fl a) (to_fl b)"
  by (cases a; cases b) simp_all

lemma fl_add_commute: "fl_add a b = fl_add b a"
  by (cases a; cases b) simp_all

lemma num_add_commute: "num_add a b = num_add b a"
  by (cases a; cases b) (simp_all add: fl_add_commute)

lemma fl_mul2: "fl_mul (fl_mul (Fin 2) a) b = fl_mul (fl_mul (Fin 2) b) a"
  by (cases a; cases b) (simp_all add: zero_less_mult_iff mult_less_0_iff)

lemma fl_mul2_Fin: "fl_mul (Fin (2 * x)) b = fl_mul (fl_mul (Fin 2) b) (Fin x)"
  using fl_mul2 [of "Fin x" b] by simp

lemma num_mul2: "num_mul (num_mul (PyInt 2) p) r = num_mul (num_mul (PyInt 2) r) p"
  by (cases p; cases r) (simp_all add: fl_mul2 fl_mul2_Fin)

lemma truediv_Inl: "truediv a b = Inl e \<Longrightarrow> e = ZeroDivisionError"
  by (auto simp: truediv_def split: if_splits)

lemma avg_value_swapped_eq: "avg_value_swapped s = avg_value s"
proof (cases "truediv (correct_true s) (y_pred s)")
  case (Inl e)
  then show ?thesis
    by (auto simp: avg_value_swapped_def avg_value_def split: sum.splits dest: truediv_Inl)
next
  case r: (Inr r)
  show ?thesis
  proof (cases "truediv (correct_true s) (y_true s)")
    case (Inl e)
    then show ?thesis using r by (simp add: avg_value_swapped_def avg_value_def)
  next
    case (Inr p)
    then show ?thesis using r
      by (simp add: avg_value_swapped_def avg_value_def num_mul2 [of p r]
          num_add_commute [of p r])
  qed
qed

lemma truediv_Fin:
  assumes "to_fl a = Fin x" and "to_fl b = Fin y" and "y \<noteq> 0"
  shows "\<exists>q. truediv a b = Inr q \<and> to_fl q = Fin (x / y)"
  using assms by (cases a; cases b) (auto simp: truediv_def)

lemma avg_value_dice_finite:
  assumes yt: "to_fl (y_true s) = Fin yt" and yp: "to_fl (y_pred s) = Fin yp"
    and c: "to_fl (correct_true s) = Fin c"
    and nz: "yt \<noteq> 0" "yp \<noteq> 0" "c \<noteq> 0" "yt + yp \<noteq> 0"
  shows "\<exists>f1. avg_value s = Inr [(name s, f1)] \<and> to_fl f1 = dice s \<and>
           dice s = Fin (2 * c / (yt + yp))"
proof -
  obtain r where r: "truediv (correct_true s) (y_pred s) = Inr r" "to_fl r = Fin (c / yp)"
    using truediv_Fin [OF c yp nz(2)] by blast
  obtain p where p: "truediv (correct_true s) (y_true s) = Inr p" "to_fl p = Fin (c / yt)"
    using truediv_Fin [OF c yt nz(1)] by blast
  have n: "to_fl (num_mul (num_mul (PyInt 2) p) r) = Fin (2 * (c / yt) * (c / yp))"
    by (simp add: to_fl_mul p r)
  have d: "to_fl (num_add p r) = Fin (c / yt + c / yp)"
    by (simp add: to_fl_add p r)
  have dnz: "c / yt + c / yp \<noteq> 0"
  proof -
    have "c / yt + c / yp = c * (yt + yp) / (yt * yp)"
      using nz by (simp add: field_simps)
    then show ?thesis using nz by simp
  qed
  obtain f1 where f1: "truediv (num_mul (num_mul (PyInt 2) p) r) (num_add p r) = Inr f1"
    "to_fl f1 = Fin (2 * (c / yt) * (c / yp) / (c / yt + c / yp))"
    using truediv_Fin [OF n d dnz] by blast
  have e: "2 * (c / yt) * (c / yp) / (c / yt + c / yp) = 2 * c / (yt + yp)"
    using nz dnz by (simp add: field_simps)
  have "avg_value s = Inr [(name s, f1)]"
    by (simp add: avg_value_def r p f1)
  moreover have "to_fl f1 = Fin (2 * c / (yt + yp))"
    using f1 e by simp
  moreover have "dice s = Fin (2 * c / (yt + yp))"
    using nz by (simp add: dice_def yt yp c)
  ultimately show ?thesis by simp
qed

lemma binary_label: "w = 0 \<or> w = 1 \<Longrightarrow> astype_byte_u8 w = of_bool (w = 1)"
  by (auto simp: astype_byte_u8_def)

lemma binary_prediction: "w = 0 \<or> w = 1 \<Longrightarrow> binarize (real (unat (w :: 8 word))) = of_bool (w = 1)"
  by (auto simp: binarize_threshold)

lemma binary_mask_label:
  "binary_mask m \<Longrightarrow> map astype_byte_u8 m = map (\<lambda>w. of_bool (w = 1)) m"
  by (simp add: binary_mask_def list_all_iff binary_label)

lemma binary_mask_prediction:
  "binary_mask m \<Longrightarrow> map binarize (mock_model (as_float m)) = map (\<lambda>w. of_bool (w = 1)) m"
proof -
  assume "binary_mask m"
  then have "\<forall>w\<in>set m. binarize (real (unat w)) = of_bool (w = 1)"
    using binary_prediction by (auto simp: binary_mask_def list_all_iff)
  then show ?thesis by (simp add: mock_model_def as_float_def)
qed

lemma sum_list_of_bool: "sum_list (map (\<lambda>w. (of_bool (P w) :: int)) m) = int (length (filter P m))"
  by (induction m) simp_all

lemma broadcast2_same: "broadcast2 f xs xs = Inr (map (\<lambda>x. f x x) xs)"
  by (simp add: broadcast2_def zip_same_conv_map)

lemma broadcast2_map:
  "broadcast2 f (map g xs) (map h xs) = Inr (map (\<lambda>x. f (g x) (h x)) xs)"
  by (simp add: broadcast2_def zip_map_map zip_same_conv_map)

lemma update_mock:
  assumes "binary_mask m"
  shows "update s [mock_model (as_float m)] [m] =
    (s\<lparr>y_true := num_add (y_true s) (NpInt (int (foreground m))),
       y_pred := num_add (y_pred s) (NpInt (int (foreground m))),
       correct_true := num_add (correct_true s) (NpFloat (Fin (real (foreground m))))\<rparr>, None)"
proof -
  let ?L = "map (\<lambda>w. (of_bool (w = 1) :: int)) m"
  have l: "map astype_byte_u8 m = ?L" using assms by (rule binary_mask_label)
  have p: "map binarize (mock_model (as_float m)) = ?L" using assms by (rule binary_mask_prediction)
  have e: "broadcast2 (\<lambda>l p. (of_bool (l = p) :: int)) ?L ?L = Inr (map (\<lambda>w. 1) m)"
    by (simp add: broadcast2_same)
  have h: "broadcast2 (*) (map (\<lambda>w. 1) m)
             (map ((\<lambda>l. (of_bool (l = 1) :: int)) \<circ> (\<lambda>w. of_bool (w = 1))) m) = Inr ?L"
    by (simp add: broadcast2_def zip_map_map zip_same_conv_map)
  have su: "sum_list ?L = int (foreground m)"
    by (simp add: sum_list_of_bool foreground_def)
  show ?thesis
    by (simp add: update_def Let_def l p e h su del: num_add.simps)
qed


lemma accumulate_numpy:
  assumes "list_all binary_mask masks"
  shows "accumulate mock_model
     \<lparr>name = nm, y_true = NpInt a, y_pred = NpInt b, correct_true = NpFloat (Fin c)\<rparr>
     (synthetic masks) =
    (\<lparr>name = nm, y_true = NpInt (a + int (sum_list (map foreground masks))),
      y_pred = NpInt (b + int (sum_list (map foreground masks))),
      correct_true = NpFloat (Fin (c + real (sum_list (map foreground masks))))\<rparr>, None)"
  using assms
proof (induction masks arbitrary: a b c)
  case Nil
  then show ?case by (simp add: synthetic_def)
next
  case (Cons m ms)
  then have m: "binary_mask m" and ms: "list_all binary_mask ms" by simp_all
  have "accumulate mock_model
     \<lparr>name = nm, y_true = NpInt a, y_pred = NpInt b, correct_true = NpFloat (Fin c)\<rparr>
     (synthetic (m # ms)) =
     accumulate mock_model
     \<lparr>name = nm, y_true = NpInt (a + int (foreground m)), y_pred = NpInt (b + int (foreground m)),
       correct_true = NpFloat (Fin (c + real (foreground m)))\<rparr>
     (synthetic ms)"
    by (simp add: synthetic_def update_mock [OF m])
  then show ?case by (simp add: Cons.IH [OF ms] add.assoc)
qed

lemma accumulate_init:
  assumes "list_all binary_mask masks" and "masks \<noteq> []"
  shows "accumulate mock_model BinaryF1_init (synthetic masks) =
    (\<lparr>name = ''F1'', y_true = NpInt (int (sum_list (map foreground masks))),
      y_pred = NpInt (int (sum_list (map foreground masks))),
      correct_true = NpFloat (Fin (real (sum_list (map foreground masks))))\<rparr>, None)"
proof -
  obtain m ms where mm: "masks = m # ms" using assms(2) by (cases masks) auto
  then have m: "binary_mask m" and ms: "list_all binary_mask ms" using assms(1) by simp_all
  have "accumulate mock_model BinaryF1_init (synthetic (m # ms)) =
     accumulate mock_model
     \<lparr>name = ''F1'', y_true = NpInt (int (foreground m)), y_pred = NpInt (int (foreground m)),
       correct_true = NpFloat (Fin (real (foreground m)))\<rparr>
     (synthetic ms)"
    by (simp add: synthetic_def update_mock [OF m] BinaryF1_init_def)
  then show ?thesis by (simp add: mm accumulate_numpy [OF ms])
qed

lemma avg_value_perfect:
  "0 < n \<Longrightarrow>
   avg_value \<lparr>name = nm, y_true = NpInt (int n), y_pred = NpInt (int n),
              correct_true = NpFloat (Fin (real n))\<rparr> = Inr [(nm, NpFloat (Fin 1))]"
  by (simp add: avg_value_def truediv_def)

lemma score_mock:
  assumes "list_all binary_mask masks" and "0 < sum_list (map foreground masks)"
  shows "score mock_model (synthetic masks) = Inr [(''F1'', NpFloat (Fin 1))]"
proof -
  have ne: "masks \<noteq> []" using assms(2) by auto
  show ?thesis
    by (simp add: score_def accumulate_init [OF assms(1) ne] avg_value_perfect [OF assms(2)])
qed

section \<open>Properties of the data source\<close>

lemma val_cases_eval:
  "val_cases =
     [''case_00007'', ''case_00010'', ''case_00014'', ''case_00015'', ''case_00030'',
      ''case_00060'', ''case_00071'', ''case_00074'', ''case_00075'', ''case_00081'',
      ''case_00092'', ''case_00093'', ''case_00106'', ''case_00115'', ''case_00117'',
      ''case_00119'', ''case_00134'', ''case_00161'', ''case_00192'', ''case_00196'',
      ''case_00203'']"
  by code_simp

lemma length_filter_sort: "length (filter P (sort xs)) = length (filter P xs)"
proof -
  have "mset (filter P (sort xs)) = mset (filter P xs)"
    by simp
  then show ?thesis by (rule mset_eq_length)
qed

lemma sort_Nil_iff: "sort xs = [] \<longleftrightarrow> xs = []"
  by (metis length_0_conv length_sort)

lemma KitsDataLoader_init_empty:
  "glob_masks tree = [] \<Longrightarrow> KitsDataLoader_init tree dir = Inl ValueError"
  by (simp add: KitsDataLoader_init_def)

lemma KitsDataLoader_init_nonempty:
  "glob_masks tree \<noteq> [] \<Longrightarrow>
   KitsDataLoader_init tree dir =
     Inr \<lparr>basedir = dir,
          dataset = filter (\<lambda>m. parents1_name m \<in> set val_cases) (sort (glob_masks tree))\<rparr>"
  by (simp add: KitsDataLoader_init_def Let_def sort_Nil_iff)

lemma glob_one_other:
  "glob_masks [[''case_00000'', ''segmentation_frames'', ''00000.png'']] =
     [[''case_00000'', ''segmentation_frames'', ''00000.png'']]"
  by (simp add: glob_masks_def startswith_def endswith_def)

lemma glob_two:
  "glob_masks [[''case_00117'', ''segmentation_frames'', ''00000.png''],
               [''case_00000'', ''segmentation_frames'', ''00000.png'']] =
     [[''case_00117'', ''segmentation_frames'', ''00000.png''],
      [''case_00000'', ''segmentation_frames'', ''00000.png'']]"
  by (simp add: glob_masks_def startswith_def endswith_def)

lemma glob_no_mask:
  "glob_masks [[''case_00117'', ''imaging_frames'', ''00000.jpg'']] = []"
  by (simp add: glob_masks_def startswith_def endswith_def)

section \<open>Properties of the timing pattern\<close>

lemma external_apply:
  "external cost ev w =
     w\<lparr>clock := clock w + cost (length (trace w)), trace := trace w @ [ev]\<rparr>"
  by (simp add: external_def)

lemma for_range_external:
  "for_range n (external cost ev) w =
     w\<lparr>clock := clock w + (\<Sum>i<n. cost (length (trace w) + i)),
       trace := trace w @ replicate n ev\<rparr>"
proof (induction n arbitrary: w)
  case 0
  then show ?case by simp
next
  case (Suc n)
  have s: "(\<Sum>i<n. cost (length (trace w) + i)) + cost (length (trace w) + n) =
        cost (length (trace w)) + (\<Sum>i<n. cost (Suc (length (trace w) + i)))"
    using sum.lessThan_Suc_shift [of "\<lambda>i. cost (length (trace w) + i)" n] by simp
  have "for_range (Suc n) (external cost ev) w =
        for_range n (external cost ev) (external cost ev w)"
    by simp
  also have "\<dots> = (external cost ev w)\<lparr>clock := clock (external cost ev w) +
             (\<Sum>i<n. cost (length (trace (external cost ev w)) + i)),
           trace := trace (external cost ev w) @ replicate n ev\<rparr>"
    by (rule Suc.IH)
  also have "\<dots> = w\<lparr>clock := clock w + (\<Sum>i<Suc n. cost (length (trace w) + i)),
       trace := trace w @ replicate (Suc n) ev\<rparr>"
    using s by (simp add: external_apply)
  finally show ?case .
qed

lemma loop_time_positive:
  fixes cost :: "nat \<Rightarrow> real"
  assumes "\<forall>k. 0 < cost k"
  shows "0 < loop_time cost k"
proof -
  have "(0::nat) \<in> {..<num_samples}"
    by (simp add: num_samples_def)
  then have "{..<num_samples} \<noteq> {}"
    by blast
  then show ?thesis
    unfolding loop_time_def using assms by (intro sum_pos) simp_all
qed

lemma timed_loop_positive:
  assumes "0 < loop_time cost (length (trace w))"
  shows "\<exists>w'. timed_loop cost title call w = (None, w') \<and>
    trace w' = trace w @ [PerfCounter] @ replicate num_samples call @
        [PerfCounter,
         Print title
           (PyFloat (loop_time cost (length (trace w)) / real num_samples))
           (PyFloat (real num_samples / loop_time cost (length (trace w))))]"
proof -
  let ?T = "loop_time cost (length (trace w))"
  let ?w1 = "w\<lparr>trace := trace w @ [PerfCounter]\<rparr>"
  let ?w2 = "w\<lparr>clock := clock w + ?T, trace := trace w @ [PerfCounter] @ replicate num_samples call\<rparr>"
  let ?w3 = "w\<lparr>clock := clock w + ?T,
               trace := trace w @ [PerfCounter] @ replicate num_samples call @ [PerfCounter]\<rparr>"
  have n: "real num_samples \<noteq> 0" by (simp add: num_samples_def)
  have t: "?T \<noteq> 0" using assms by simp
  have p1: "perf_counter w = (clock w, ?w1)" by (simp add: perf_counter_def)
  have l: "for_range num_samples (external cost call) ?w1 = ?w2"
    by (simp add: for_range_external loop_time_def)
  have p2: "perf_counter ?w2 = (clock w + ?T, ?w3)" by (simp add: perf_counter_def)
  have d1: "truediv (PyFloat ?T) (PyInt (int num_samples)) = Inr (PyFloat (?T / real num_samples))"
    using n by (simp add: truediv_def)
  have d2: "truediv (PyInt (int num_samples)) (PyFloat ?T) = Inr (PyFloat (real num_samples / ?T))"
    using t by (simp add: truediv_def)
  have "timed_loop cost title call w =
     (None, external cost (Print title (PyFloat (?T / real num_samples)) (PyFloat (real num_samples / ?T))) ?w3)"
    unfolding timed_loop_def p1 Let_def prod.case l p2 by (simp add: d1 d2)
  then show ?thesis by (simp add: external_apply)
qed

lemma compile_cell_trace:
  "trace (compile_cell cost w) = trace w @ [ReadModel, Reshape, CompileModel]"
  by (simp add: compile_cell_def external_apply)

section \<open>Reading the metric with no predicted positive\<close>

text \<open>
  C1, as the specification states it: \<open>avg_value\<close> after zero \<open>update\<close> calls, or with
  a predicted-positive count of zero, does not raise and returns the score 0. The code
  has no guard. On a fresh metric the counters are Python integers and \<open>0 / 0\<close> raises
  \<open>ZeroDivisionError\<close>; after one \<open>update\<close> on a single background pixel the counters
  are NumPy scalars, nothing is raised, and the score is \<open>nan\<close>, not 0.
\<close>

theorem avg_value_fresh_raises:
  "avg_value BinaryF1_init = Inl ZeroDivisionError \<and>
   avg_value (fst (update BinaryF1_init [[0]] [[0]])) = Inr [(''F1'', NpFloat NaN)]"
  by (simp add: update_zero_pixel) (simp add: avg_value_def BinaryF1_init_def truediv_def)

text \<open>
  C1, amended: \<open>avg_value\<close> on a fresh or reset metric raises \<open>ZeroDivisionError\<close>; on
  a metric that went through at least one \<open>update\<close> on a non-empty batch and whose
  predicted-positive count is zero it does not raise and returns \<open>nan\<close>.
\<close>

theorem avg_value_degenerate:
  "avg_value BinaryF1_init = Inl ZeroDivisionError \<and>
   avg_value (reset s) = Inl ZeroDivisionError \<and>
   (update s (o0 # os) (t0 # ts) = (s', exc) \<and> to_fl (y_pred s') = Fin 0
      \<longrightarrow> avg_value s' = Inr [(name s', NpFloat NaN)])"
proof (intro conjI impI)
  show "avg_value BinaryF1_init = Inl ZeroDivisionError"
    by (simp add: avg_value_def BinaryF1_init_def truediv_def)
  show "avg_value (reset s) = Inl ZeroDivisionError"
    by (rule avg_value_reset)
next
  assume a: "update s (o0 # os) (t0 # ts) = (s', exc) \<and> to_fl (y_pred s') = Fin 0"
  then have np: "\<not> is_py (y_pred s')" "\<not> is_py (y_true s')"
    using update_fields by blast+
  have r: "\<forall>x. fl_div (to_fl (correct_true s')) (to_fl (y_pred s')) \<noteq> Fin x"
    using a by (simp add: fl_div_zero_not_Fin)
  show "avg_value s' = Inr [(name s', NpFloat NaN)]"
    by (simp add: avg_value_numpy [OF np] fl_f1_nan [OF r])
qed

theorem avg_value_degenerate_witness:
  "update BinaryF1_init [[0]] [[0]] =
     (\<lparr>name = ''F1'', y_true = NpInt 0, y_pred = NpInt 0, correct_true = NpFloat (Fin 0)\<rparr>,
      None) \<and>
   to_fl (y_pred \<lparr>name = ''F1'', y_true = NpInt 0, y_pred = NpInt 0,
                  correct_true = NpFloat (Fin 0)\<rparr>) = Fin 0 \<and>
   avg_value \<lparr>name = ''F1'', y_true = NpInt 0, y_pred = NpInt 0,
              correct_true = NpFloat (Fin 0)\<rparr> = Inr [(''F1'', NpFloat NaN)]"
  using avg_value_degenerate [of BinaryF1_init "[0]" "[]" "[0]" "[]"
      "\<lparr>name = ''F1'', y_true = NpInt 0, y_pred = NpInt 0, correct_true = NpFloat (Fin 0)\<rparr>"
      None]
  by (simp add: update_zero_pixel)

section \<open>The score and the Dice coefficient\<close>

text \<open>
  C8, as stated: whenever \<open>y_true\<close> and \<open>y_pred\<close> are both nonzero, \<open>avg_value\<close> is
  the Dice coefficient. It fails in two reachable states. After one \<open>update\<close> in which
  the only positive label is predicted negative and the only positive prediction is a
  negative label, \<open>y_true = y_pred = 1\<close> and \<open>correct_true = 0\<close>: precision and recall
  are both 0, the code divides 0 by 0 and returns \<open>nan\<close>, the Dice coefficient is 0.
  With mask pixels of value 255 (label \<open>-1\<close>) the two counters can cancel:
  \<open>y_true = -1\<close>, \<open>y_pred = 1\<close>, \<open>correct_true = 1\<close> gives \<open>-inf\<close> against \<open>inf\<close>.
\<close>

theorem avg_value_not_dice:
  "y_true (fst (update BinaryF1_init [[- 1, 1]] [[1, 0]])) = NpInt 1 \<and>
   y_pred (fst (update BinaryF1_init [[- 1, 1]] [[1, 0]])) = NpInt 1 \<and>
   avg_value (fst (update BinaryF1_init [[- 1, 1]] [[1, 0]])) = Inr [(''F1'', NpFloat NaN)] \<and>
   dice (fst (update BinaryF1_init [[- 1, 1]] [[1, 0]])) = Fin 0 \<and>
   y_true (fst (update BinaryF1_init [[1, - 1, - 1]] [[1, 255, 255]])) = NpInt (- 1) \<and>
   y_pred (fst (update BinaryF1_init [[1, - 1, - 1]] [[1, 255, 255]])) = NpInt 1 \<and>
   avg_value (fst (update BinaryF1_init [[1, - 1, - 1]] [[1, 255, 255]])) =
     Inr [(''F1'', NpFloat NInf)] \<and>
   dice (fst (update BinaryF1_init [[1, - 1, - 1]] [[1, 255, 255]])) = PInf"
  by (simp add: update_def BinaryF1_init_def Let_def astype_byte_u8_def broadcast2_def
      binarize_threshold avg_value_def truediv_def dice_def)

text \<open>
  C8, amended: in every state where \<open>y_true\<close>, \<open>y_pred\<close>, \<open>correct_true\<close> and the sum
  \<open>y_true + y_pred\<close> are finite and nonzero, \<open>avg_value\<close> does not raise and its score
  equals the Dice coefficient \<open>2 * correct_true / (y_true + y_pred)\<close> (in exact
  arithmetic); and in every state whatsoever, interchanging the code's precision and
  recall leaves the result of \<open>avg_value\<close> unchanged.
\<close>

theorem avg_value_dice:
  "avg_value_swapped s = avg_value s \<and>
   (to_fl (y_true s) = Fin yt \<and> to_fl (y_pred s) = Fin yp \<and> to_fl (correct_true s) = Fin c \<and>
    yt \<noteq> 0 \<and> yp \<noteq> 0 \<and> c \<noteq> 0 \<and> yt + yp \<noteq> 0 \<longrightarrow>
      (\<exists>f1. avg_value s = Inr [(name s, f1)] \<and> to_fl f1 = dice s \<and>
            dice s = Fin (2 * c / (yt + yp))))"
  using avg_value_swapped_eq [of s] avg_value_dice_finite [of s yt yp c] by blast

theorem avg_value_dice_witness:
  "to_fl (y_true \<lparr>name = ''F1'', y_true = NpInt 1, y_pred = NpInt 2,
                  correct_true = NpFloat (Fin 1)\<rparr>) = Fin 1 \<and>
   to_fl (y_pred \<lparr>name = ''F1'', y_true = NpInt 1, y_pred = NpInt 2,
                  correct_true = NpFloat (Fin 1)\<rparr>) = Fin 2 \<and>
   to_fl (correct_true \<lparr>name = ''F1'', y_true = NpInt 1, y_pred = NpInt 2,
                        correct_true = NpFloat (Fin 1)\<rparr>) = Fin 1 \<and>
   (\<exists>f1. avg_value \<lparr>name = ''F1'', y_true = NpInt 1, y_pred = NpInt 2,
                     correct_true = NpFloat (Fin 1)\<rparr> = Inr [(''F1'', f1)] \<and>
         to_fl f1 = Fin (2 / 3))"
  using avg_value_dice [of "\<lparr>name = ''F1'', y_true = NpInt 1, y_pred = NpInt 2,
      correct_true = NpFloat (Fin 1)\<rparr>" 1 2 1]
  by (simp add: dice_def)

section \<open>The counters along a sequence of \<open>update\<close> calls\<close>

text \<open>
  C10, as stated: every \<open>update\<close> leaves each of the three counters at least as large
  as before. The label is the mask cast to a signed byte, so a mask pixel of value 255
  is the label \<open>-1\<close>, and one \<open>update\<close> on such a pixel takes \<open>y_true\<close> from 0 to
  \<open>-1\<close>.
\<close>

theorem update_y_true_decreases:
  "y_true (fst (update (reset BinaryF1_init) [[0]] [[255]])) = NpInt (- 1) \<and>
   \<not> num_le (y_true (reset BinaryF1_init))
             (y_true (fst (update (reset BinaryF1_init) [[0]] [[255]])))"
  by (simp add: update_def reset_def BinaryF1_init_def Let_def astype_byte_u8_def
      broadcast2_def binarize_threshold num_le_def)

text \<open>
  C10, amended: in every state reached from a reset metric by a sequence of \<open>update\<close>
  calls, one more \<open>update\<close> (whether it raises or not) never decreases \<open>y_pred\<close> or
  \<open>correct_true\<close>, and never decreases \<open>y_true\<close> when the labels of that call, the
  pixels of \<open>target[0]\<close> as signed bytes, are non-negative.
\<close>

theorem update_counters_monotone:
  "num_le (y_pred (update_calls (reset s0) calls))
          (y_pred (fst (update (update_calls (reset s0) calls) output target))) \<and>
   num_le (correct_true (update_calls (reset s0) calls))
          (correct_true (fst (update (update_calls (reset s0) calls) output target))) \<and>
   ((\<forall>t0 \<in> set (take 1 target). \<forall>w \<in> set t0. 0 \<le> astype_byte_u8 w) \<longrightarrow>
      num_le (y_true (update_calls (reset s0) calls))
             (y_true (fst (update (update_calls (reset s0) calls) output target))))"
  using update_monotone(2-4) [OF finite_counters_calls [OF finite_counters_reset]]
  by blast

theorem update_counters_monotone_witness:
  "0 \<le> astype_byte_u8 1 \<and> 0 \<le> astype_byte_u8 0 \<and>
   num_le (y_true (update_calls (reset BinaryF1_init) [([[1, 0]], [[1, 1]])]))
          (y_true (fst (update (update_calls (reset BinaryF1_init) [([[1, 0]], [[1, 1]])])
                          [[2, - 1, 3]] [[1, 0, 0]]))) \<and>
   num_le (y_pred (update_calls (reset BinaryF1_init) [([[1, 0]], [[1, 1]])]))
          (y_pred (fst (update (update_calls (reset BinaryF1_init) [([[1, 0]], [[1, 1]])])
                          [[2, - 1, 3]] [[1, 0, 0]]))) \<and>
   num_le (correct_true (update_calls (reset BinaryF1_init) [([[1, 0]], [[1, 1]])]))
          (correct_true (fst (update (update_calls (reset BinaryF1_init) [([[1, 0]], [[1, 1]])])
                          [[2, - 1, 3]] [[1, 0, 0]])))"
  using update_counters_monotone [of BinaryF1_init "[([[1, 0]], [[1, 1]])]"
      "[[2, - 1, 3]]" "[[1, 0, 0]]"]
  by (simp add: astype_byte_u8_def)

section \<open>A perfect score on the synthetic dataset\<close>

text \<open>
  C2: for a synthetic dataset of four binary masks, two all background and two with
  exactly 100 foreground pixels each (in any order, of any sizes), accumulating with
  \<open>update\<close> over the mock model that returns the ground truth as floats, and then
  reading \<open>avg_value\<close>, raises nothing and yields the score \<open>F1 = 1.0\<close>.
\<close>

theorem score_perfect:
  assumes "list_all binary_mask masks" and "mset (map foreground masks) = {#0, 0, 100, 100#}"
  shows "score mock_model (synthetic masks) = Inr [(''F1'', NpFloat (Fin 1))]"
proof -
  have "sum_list (map foreground masks) = sum_mset (mset (map foreground masks))"
    by (rule sum_mset_sum_list [symmetric])
  also have "\<dots> = sum_mset {#0, 0, 100, 100#}"
    by (simp only: assms(2))
  also have "\<dots> = 200"
    by simp
  finally have "0 < sum_list (map foreground masks)" by simp
  then show ?thesis by (rule score_mock [OF assms(1)])
qed

theorem score_perfect_witness:
  "list_all binary_mask [replicate 64 0, replicate 64 0, replicate 100 1,
       replicate 50 1 @ replicate 28 0 @ replicate 50 1] \<and>
   mset (map foreground [replicate 64 0, replicate 64 0, replicate 100 1,
       replicate 50 1 @ replicate 28 0 @ replicate 50 1]) = {#0, 0, 100, 100#} \<and>
   score mock_model (synthetic [replicate 64 0, replicate 64 0, replicate 100 1,
       replicate 50 1 @ replicate 28 0 @ replicate 50 1]) = Inr [(''F1'', NpFloat (Fin 1))]"
proof -
  have b: "list_all binary_mask [replicate 64 0, replicate 64 0, replicate 100 1,
       replicate 50 1 @ replicate 28 0 @ replicate 50 1]"
    by (simp add: binary_mask_def list_all_iff)
  have f: "mset (map foreground [replicate 64 0, replicate 64 0, replicate 100 1,
       replicate 50 1 @ replicate 28 0 @ replicate 50 1]) = {#0, 0, 100, 100#}"
    by (simp add: foreground_def)
  show ?thesis using b f score_perfect [OF b f] by simp
qed

section \<open>Constructing the data source\<close>

text \<open>
  C3, as stated: a backing directory with zero samples raises a \<open>ConfigurationError\<close>,
  and with at least one sample construction succeeds and the length is the sample count.
  The exception the constructor raises is a \<open>ValueError\<close>, and the length counts only
  the masks of the 21 validation cases: a directory with one mask under \<open>case_00117\<close>
  and one under \<open>case_00000\<close> holds two samples and gives a loader of length 1.
\<close>

theorem kits_len_not_sample_count:
  "length (glob_masks [[''case_00117'', ''segmentation_frames'', ''00000.png''],
                       [''case_00000'', ''segmentation_frames'', ''00000.png'']]) = 2 \<and>
   (\<exists>dl. KitsDataLoader_init [[''case_00117'', ''segmentation_frames'', ''00000.png''],
                               [''case_00000'', ''segmentation_frames'', ''00000.png'']]
            ''kits19_frames_1'' = Inr dl \<and> KitsDataLoader_len dl = 1) \<and>
   KitsDataLoader_init [] ''kits19_frames_1'' = Inl ValueError"
  by (simp add: glob_two KitsDataLoader_init_nonempty KitsDataLoader_len_def
      length_filter_sort parents1_name_def val_cases_eval)
    (simp add: KitsDataLoader_init_def glob_masks_def)

text \<open>
  C3, amended: when the glob \<open>case_*/segmentation_frames/*png\<close> matches nothing the
  constructor raises \<open>ValueError\<close>; when it matches at least one mask under one of the
  validation cases, construction succeeds and the length is the number of matched masks
  under validation cases (masks of other cases are not counted).
\<close>

theorem kits_init_len:
  "(glob_masks tree = [] \<longrightarrow> KitsDataLoader_init tree dir = Inl ValueError) \<and>
   (filter (\<lambda>m. parents1_name m \<in> set val_cases) (glob_masks tree) \<noteq> [] \<longrightarrow>
      (\<exists>dl. KitsDataLoader_init tree dir = Inr dl \<and> 0 < KitsDataLoader_len dl \<and>
            KitsDataLoader_len dl =
              length (filter (\<lambda>m. parents1_name m \<in> set val_cases) (glob_masks tree))))"
proof (intro conjI impI)
  assume "glob_masks tree = []"
  then show "KitsDataLoader_init tree dir = Inl ValueError"
    by (rule KitsDataLoader_init_empty)
next
  assume v: "filter (\<lambda>m. parents1_name m \<in> set val_cases) (glob_masks tree) \<noteq> []"
  then have ne: "glob_masks tree \<noteq> []" by auto
  show "\<exists>dl. KitsDataLoader_init tree dir = Inr dl \<and> 0 < KitsDataLoader_len dl \<and>
            KitsDataLoader_len dl =
              length (filter (\<lambda>m. parents1_name m \<in> set val_cases) (glob_masks tree))"
  proof -
    have "0 < length (filter (\<lambda>m. parents1_name m \<in> set val_cases) (glob_masks tree))"
      using v by simp
    then show ?thesis
      by (simp add: KitsDataLoader_init_nonempty [OF ne] KitsDataLoader_len_def
          length_filter_sort del: length_greater_0_conv)
  qed
qed

theorem kits_init_len_witness:
  "glob_masks [[''case_00117'', ''imaging_frames'', ''00000.jpg'']] = [] \<and>
   KitsDataLoader_init [[''case_00117'', ''imaging_frames'', ''00000.jpg'']] ''kits19_frames_1'' =
     Inl ValueError \<and>
   filter (\<lambda>m. parents1_name m \<in> set val_cases)
     (glob_masks [[''case_00117'', ''segmentation_frames'', ''00000.png''],
                  [''case_00000'', ''segmentation_frames'', ''00000.png'']]) \<noteq> [] \<and>
   (\<exists>dl. KitsDataLoader_init [[''case_00117'', ''segmentation_frames'', ''00000.png''],
                               [''case_00000'', ''segmentation_frames'', ''00000.png'']]
            ''kits19_frames_1'' = Inr dl \<and> KitsDataLoader_len dl = 1)"
  using kits_init_len [of "[[''case_00117'', ''imaging_frames'', ''00000.jpg'']]" "''kits19_frames_1''"]
    kits_init_len [of "[[''case_00117'', ''segmentation_frames'', ''00000.png''],
                  [''case_00000'', ''segmentation_frames'', ''00000.png'']]" "''kits19_frames_1''"]
  by (auto simp: glob_no_mask glob_two parents1_name_def val_cases_eval)

section \<open>A directory without validation cases\<close>

text \<open>
  C9: the emptiness check looks at the unfiltered glob. For a directory whose masks
  all lie under cases outside the validation list, the check passes, the constructor
  raises nothing, and the length of the data source is 0.
\<close>

theorem kits_silently_empty:
  assumes "glob_masks tree \<noteq> []"
    and "\<forall>p \<in> set (glob_masks tree). parents1_name p \<notin> set val_cases"
  shows "\<exists>dl. KitsDataLoader_init tree dir = Inr dl \<and> KitsDataLoader_len dl = 0"
proof -
  have "filter (\<lambda>m. parents1_name m \<in> set val_cases) (glob_masks tree) = []"
    using assms(2) by (simp add: filter_empty_conv)
  then have "length (filter (\<lambda>m. parents1_name m \<in> set val_cases) (sort (glob_masks tree))) = 0"
    by (simp add: length_filter_sort)
  then show ?thesis
    by (simp add: KitsDataLoader_init_nonempty [OF assms(1)] KitsDataLoader_len_def)
qed

theorem kits_silently_empty_witness:
  "glob_masks [[''case_00000'', ''segmentation_frames'', ''00000.png'']] \<noteq> [] \<and>
   parents1_name [''case_00000'', ''segmentation_frames'', ''00000.png''] \<notin> set val_cases \<and>
   (\<exists>dl. KitsDataLoader_init [[''case_00000'', ''segmentation_frames'', ''00000.png'']]
            ''kits19_frames_1'' = Inr dl \<and> KitsDataLoader_len dl = 0)"
  using kits_silently_empty [of "[[''case_00000'', ''segmentation_frames'', ''00000.png'']]"
      "''kits19_frames_1''"]
  by (simp add: glob_one_other parents1_name_def val_cases_eval)

section \<open>What the benchmark times\<close>

text \<open>
  C7: when every external call takes a positive time, the two benchmark cells raise
  nothing and their trace is the one below. Reading, reshaping and compiling the model
  come before the first clock reading; between the two clock readings of the FP32
  measurement lie exactly \<open>num_samples\<close> calls of the compiled model, all on the same
  \<open>inputs\<close>, and nothing else; and the throughput it prints is \<open>num_samples\<close> divided by
  the measured time, which is the time \<open>T2\<close> of exactly those calls.
\<close>

theorem benchmark_times_only_the_loop:
  fixes cost :: "nat \<Rightarrow> real" and inputs :: 'a and w0 :: "'a world"
  assumes "\<forall>k. 0 < cost k"
  defines "n0 \<equiv> length (trace w0)"
  defines "T1 \<equiv> loop_time cost (n0 + 3)"
  defines "T2 \<equiv> loop_time cost (n0 + 56)"
  defines "T3 \<equiv> loop_time cost (n0 + 109)"
  shows "fst (benchmark cost inputs w0) = None \<and>
    trace (snd (benchmark cost inputs w0)) =
      trace w0 @ [ReadModel, Reshape, CompileModel] @
      [PerfCounter] @ replicate num_samples (TorchCall inputs) @
      [PerfCounter,
       Print ''PyTorch model on CPU''
         (PyFloat (T1 / real num_samples)) (PyFloat (real num_samples / T1))] @
      [PerfCounter] @ replicate num_samples (InferFP32 inputs) @
      [PerfCounter,
       Print ''IR FP32 model in OpenVINO Runtime/CPU''
         (PyFloat (T2 / real num_samples)) (PyFloat (real num_samples / T2))] @
      [PerfCounter] @ replicate num_samples (InferINT8 inputs) @
      [PerfCounter,
       Print ''OpenVINO IR INT8 model in OpenVINO Runtime/CPU''
         (PyFloat (T3 / real num_samples)) (PyFloat (real num_samples / T3))]"
proof -
  note pos = loop_time_positive [OF assms(1)]
  define w1 where "w1 = compile_cell cost w0"
  have t1: "trace w1 = trace w0 @ [ReadModel, Reshape, CompileModel]"
    by (simp add: w1_def compile_cell_trace)
  have l1: "length (trace w1) = n0 + 3"
    by (simp add: t1 n0_def)
  obtain w2 where w2: "timed_loop cost ''PyTorch model on CPU'' (TorchCall inputs) w1 = (None, w2)"
    and t2: "trace w2 = trace w1 @ [PerfCounter] @ replicate num_samples (TorchCall inputs) @
      [PerfCounter, Print ''PyTorch model on CPU''
         (PyFloat (T1 / real num_samples)) (PyFloat (real num_samples / T1))]"
    using timed_loop_positive [where w = w1 and cost = cost, OF pos]
    unfolding l1 T1_def by blast
  have l2: "length (trace w2) = n0 + 56"
    by (simp add: t2 l1 num_samples_def)
  obtain w3 where w3: "timed_loop cost ''IR FP32 model in OpenVINO Runtime/CPU''
        (InferFP32 inputs) w2 = (None, w3)"
    and t3: "trace w3 = trace w2 @ [PerfCounter] @ replicate num_samples (InferFP32 inputs) @
      [PerfCounter, Print ''IR FP32 model in OpenVINO Runtime/CPU''
         (PyFloat (T2 / real num_samples)) (PyFloat (real num_samples / T2))]"
    using timed_loop_positive [where w = w2 and cost = cost, OF pos]
    unfolding l2 T2_def by blast
  have l3: "length (trace w3) = n0 + 109"
    by (simp add: t3 l2 num_samples_def)
  obtain w4 where w4: "timed_loop cost ''OpenVINO IR INT8 model in OpenVINO Runtime/CPU''
        (InferINT8 inputs) w3 = (None, w4)"
    and t4: "trace w4 = trace w3 @ [PerfCounter] @ replicate num_samples (InferINT8 inputs) @
      [PerfCounter, Print ''OpenVINO IR INT8 model in OpenVINO Runtime/CPU''
         (PyFloat (T3 / real num_samples)) (PyFloat (real num_samples / T3))]"
    using timed_loop_positive [where w = w3 and cost = cost, OF pos]
    unfolding l3 T3_def by blast
  have "benchmark cost inputs w0 = (None, w4)"
    using w2 w3 w4 by (simp add: benchmark_def benchmark_cell_def w1_def)
  then show ?thesis
    by (simp add: t4 t3 t2 t1)
qed

theorem benchmark_times_only_the_loop_witness:
  "(0 :: real) < 1 / 100 \<and>
   fst (benchmark (\<lambda>k. 1 / 100) () \<lparr>clock = 0, trace = []\<rparr>) = None \<and>
   trace (snd (benchmark (\<lambda>k. 1 / 100) () \<lparr>clock = 0, trace = []\<rparr>)) =
     [ReadModel, Reshape, CompileModel] @
     [PerfCounter] @ replicate 50 (TorchCall ()) @
     [PerfCounter, Print ''PyTorch model on CPU'' (PyFloat (1 / 100)) (PyFloat 100)] @
     [PerfCounter] @ replicate 50 (InferFP32 ()) @
     [PerfCounter,
      Print ''IR FP32 model in OpenVINO Runtime/CPU'' (PyFloat (1 / 100)) (PyFloat 100)] @
     [PerfCounter] @ replicate 50 (InferINT8 ()) @
     [PerfCounter,
      Print ''OpenVINO IR INT8 model in OpenVINO Runtime/CPU'' (PyFloat (1 / 100)) (PyFloat 100)]"
  using benchmark_times_only_the_loop [of "\<lambda>k. 1 / 100" "()" "\<lparr>clock = 0, trace = []\<rparr>"]
  by (simp add: loop_time_def num_samples_def)

end
